theory Spec2Isabelle
  imports Main
begin

section \<open>Promises and host errors\<close>

text \<open>
  The three source files are TypeScript. A method that returns \<open>Promise<T>\<close> is modelled
  as a function returning \<open>error + T\<close> together with the state it leaves behind:
  \<open>Inl e\<close> is a promise rejected with \<open>e\<close>, \<open>Inr v\<close> one resolved with \<open>v\<close>.
  A rejection does not roll anything back, so the state is returned in both cases.
\<close>

datatype error = HostError string

section \<open>The DacFx test service\<close>

subsection \<open>Constants and result records\<close>

text \<open>
  The module-level string constants. Two of them share their name with a method of the
  class (\<open>generateDeployPlan\<close>, \<open>validateStreamingJob\<close>); the constants carry the suffix
  \<open>_const\<close> here.
\<close>

definition deployOperationId :: string where
  "deployOperationId = ''deploy dacpac''"

definition extractOperationId :: string where
  "extractOperationId = ''extract dacpac''"

definition exportOperationId :: string where
  "exportOperationId = ''export bacpac''"

definition importOperationId :: string where
  "importOperationId = ''import bacpac''"

definition generateScript :: string where
  "generateScript = ''generate script''"

definition generateDeployPlan_const :: string where
  "generateDeployPlan_const = ''generate deploy plan''"

definition validateStreamingJob_const :: string where
  "validateStreamingJob_const = ''validate streaming job''"

text \<open>
  The result interfaces of the \<open>mssql\<close> and \<open>azdata\<close> typings, with the fields the object
  literals of the source give them. \<open>DacFxResult\<close> extends \<open>ResultStatus\<close> by
  \<open>operationId\<close>, \<open>GenerateDeployPlanResult\<close> extends \<open>DacFxResult\<close> by \<open>report\<close>;
  the options result and the streaming-job result have no \<open>operationId\<close> field.
\<close>

record ResultStatus =
  success :: bool
  errorMessage :: string

record DacFxResult = ResultStatus +
  operationId :: string

record GenerateDeployPlanResult = DacFxResult +
  report :: string

text \<open>
  One deployment option: the source's field \<open>value\<close> is called \<open>optionValue\<close> here.
  Object literals with string keys are association lists, in the order of the source.
\<close>

record 'a DacDeployOptionProperty =
  optionValue :: 'a
  description :: string
  propertyName :: string

record DeploymentOptions =
  doNotDropObjectTypes :: "nat list DacDeployOptionProperty"
  excludeObjectTypes :: "nat list DacDeployOptionProperty"
  optionsMapTable :: "(string \<times> bool DacDeployOptionProperty) list"
  includeObjects :: "(string \<times> nat) list"

record DacFxOptionsResult = ResultStatus +
  deploymentOptions :: DeploymentOptions

type_synonym ValidateStreamingJobResult = ResultStatus

text \<open>
  \<open>azdata.TaskExecutionMode\<close> and \<open>mssql.ExtractTarget\<close> are numeric enums; the optional
  \<open>Record<string, string>\<close> argument is an optional association list.
\<close>

type_synonym TaskExecutionMode = nat
type_synonym ExtractTarget = nat
type_synonym SqlCommandVariableValues = "(string \<times> string) list option"

subsection \<open>The service object\<close>

text \<open>
  \<open>dacfxResult\<close> is a field holding a reference to one mutable object, and six methods
  hand that very reference to their callers. The object therefore lives in an explicit
  store: \<open>heap\<close> maps references to \<open>DacFxResult\<close> objects, and the field \<open>dacfxResult\<close>
  holds the reference. An assignment \<open>this.dacfxResult.operationId = v\<close> updates the
  store at that reference.
\<close>

type_synonym ref = nat

record DacFxTestService =
  heap :: "ref \<Rightarrow> DacFxResult"
  dacfxResult :: ref

text \<open>
  The field initialiser and the (empty) constructor: a new object at reference \<open>r\<close> of
  the store \<open>h\<close>.
\<close>

definition DacFxTestService_new :: "(ref \<Rightarrow> DacFxResult) \<Rightarrow> ref \<Rightarrow> DacFxTestService" where
  "DacFxTestService_new h r =
     \<lparr>heap = h(r := \<lparr>success = True, errorMessage = '''', operationId = ''test''\<rparr>),
      dacfxResult = r\<rparr>"

text \<open>The assignment \<open>this.dacfxResult.operationId = v\<close>.\<close>

definition assign_operationId :: "string \<Rightarrow> DacFxTestService \<Rightarrow> DacFxTestService" where
  "assign_operationId v s =
     s\<lparr>heap := (heap s)(dacfxResult s := (heap s (dacfxResult s))\<lparr>operationId := v\<rparr>)\<rparr>"

subsection \<open>The methods\<close>

text \<open>
  Every method ignores its arguments. The six methods typed \<open>Promise<mssql.DacFxResult>\<close>
  resolve with the reference held in \<open>this.dacfxResult\<close>; the other three resolve with a
  fresh object literal, returned here by value.
\<close>

definition exportBacpac ::
  "string \<Rightarrow> string \<Rightarrow> string \<Rightarrow> TaskExecutionMode \<Rightarrow> DacFxTestService
     \<Rightarrow> (error + ref) \<times> DacFxTestService" where
  "exportBacpac databaseName packageFilePath ownerUri taskExecutionMode s =
     (let s' = assign_operationId exportOperationId s in (Inr (dacfxResult s'), s'))"

definition importBacpac ::
  "string \<Rightarrow> string \<Rightarrow> string \<Rightarrow> TaskExecutionMode \<Rightarrow> DacFxTestService
     \<Rightarrow> (error + ref) \<times> DacFxTestService" where
  "importBacpac packageFilePath databaseName ownerUri taskExecutionMode s =
     (let s' = assign_operationId importOperationId s in (Inr (dacfxResult s'), s'))"

definition extractDacpac ::
  "string \<Rightarrow> string \<Rightarrow> string \<Rightarrow> string \<Rightarrow> string \<Rightarrow> TaskExecutionMode \<Rightarrow> DacFxTestService
     \<Rightarrow> (error + ref) \<times> DacFxTestService" where
  "extractDacpac databaseName packageFilePath applicationName applicationVersion ownerUri
       taskExecutionMode s =
     (let s' = assign_operationId extractOperationId s in (Inr (dacfxResult s'), s'))"

definition createProjectFromDatabase ::
  "string \<Rightarrow> string \<Rightarrow> string \<Rightarrow> string \<Rightarrow> string \<Rightarrow> ExtractTarget \<Rightarrow> TaskExecutionMode
     \<Rightarrow> DacFxTestService \<Rightarrow> (error + ref) \<times> DacFxTestService" where
  "createProjectFromDatabase databaseName targetFilePath applicationName applicationVersion
       ownerUri extractTarget taskExecutionMode s =
     (let s' = assign_operationId importOperationId s in (Inr (dacfxResult s'), s'))"

definition deployDacpac ::
  "string \<Rightarrow> string \<Rightarrow> bool \<Rightarrow> string \<Rightarrow> TaskExecutionMode \<Rightarrow> SqlCommandVariableValues
     \<Rightarrow> DacFxTestService \<Rightarrow> (error + ref) \<times> DacFxTestService" where
  "deployDacpac packageFilePath databaseName upgradeExisting ownerUri taskExecutionMode
       sqlCommandVariableValues s =
     (let s' = assign_operationId deployOperationId s in (Inr (dacfxResult s'), s'))"

definition generateDeployScript ::
  "string \<Rightarrow> string \<Rightarrow> string \<Rightarrow> TaskExecutionMode \<Rightarrow> SqlCommandVariableValues
     \<Rightarrow> DacFxTestService \<Rightarrow> (error + ref) \<times> DacFxTestService" where
  "generateDeployScript packageFilePath databaseName ownerUri taskExecutionMode
       sqlCommandVariableValues s =
     (let s' = assign_operationId generateScript s in (Inr (dacfxResult s'), s'))"

definition generateDeployPlan ::
  "string \<Rightarrow> string \<Rightarrow> string \<Rightarrow> TaskExecutionMode \<Rightarrow> DacFxTestService
     \<Rightarrow> (error + GenerateDeployPlanResult) \<times> DacFxTestService" where
  "generateDeployPlan packageFilePath databaseName ownerUri taskExecutionMode s =
     (let s' = assign_operationId generateDeployPlan_const s;
          deployPlan = \<lparr>success = True, errorMessage = '''',
                        operationId = generateDeployPlan_const,
                        report = generateDeployPlan_const\<rparr>
      in (Inr deployPlan, s'))"

definition getOptionsFromProfile ::
  "string \<Rightarrow> DacFxTestService \<Rightarrow> (error + DacFxOptionsResult) \<times> DacFxTestService" where
  "getOptionsFromProfile profilePath s =
     (let sampleDesc = ''Sample Description text'';
          sampleName = ''Sample Property Name'';
          optionsResult =
            \<lparr>success = True, errorMessage = '''',
             deploymentOptions =
               \<lparr>doNotDropObjectTypes =
                  \<lparr>optionValue = [], description = sampleDesc, propertyName = sampleName\<rparr>,
                excludeObjectTypes =
                  \<lparr>optionValue = [], description = sampleDesc, propertyName = sampleName\<rparr>,
                optionsMapTable =
                  [(''Sample Display Name Option1'',
                      \<lparr>optionValue = False, description = sampleDesc, propertyName = sampleName\<rparr>),
                   (''Sample Display Name Option2'',
                      \<lparr>optionValue = False, description = sampleDesc, propertyName = sampleName\<rparr>)],
                includeObjects =
                  [(''Sample Include Object Type1'', 0), (''Sample Include Object Type2'', 2)]\<rparr>\<rparr>
      in (Inr optionsResult, s))"

definition validateStreamingJob ::
  "string \<Rightarrow> string \<Rightarrow> DacFxTestService
     \<Rightarrow> (error + ValidateStreamingJobResult) \<times> DacFxTestService" where
  "validateStreamingJob packageFilePath createStreamingJobTsql s =
     (let s' = assign_operationId validateStreamingJob_const s;
          streamingJobValidationResult = \<lparr>success = True, errorMessage = ''''\<rparr>
      in (Inr streamingJobValidationResult, s'))"

subsection \<open>Calls through the interface\<close>

text \<open>
  A caller holds the service behind \<open>mssql.IDacFxService\<close> and calls its methods one
  after the other. \<open>call\<close> names a method with its arguments, \<open>method_result\<close> is what a
  call resolves with (a reference to a \<open>DacFxResult\<close> in the store, or a fresh record),
  \<open>invoke\<close> dispatches one call and \<open>runCalls\<close> a sequence of them.
\<close>

datatype call =
  ExportBacpac string string string TaskExecutionMode
| ImportBacpac string string string TaskExecutionMode
| ExtractDacpac string string string string string TaskExecutionMode
| CreateProjectFromDatabase string string string string string ExtractTarget TaskExecutionMode
| DeployDacpac string string bool string TaskExecutionMode SqlCommandVariableValues
| GenerateDeployScript string string string TaskExecutionMode SqlCommandVariableValues
| GenerateDeployPlan string string string TaskExecutionMode
| GetOptionsFromProfile string
| ValidateStreamingJob string string

datatype method_result =
  DacFxResultRef ref
| DeployPlanResult GenerateDeployPlanResult
| OptionsResult DacFxOptionsResult
| StreamingJobResult ValidateStreamingJobResult

definition resolved_as ::
  "('a \<Rightarrow> method_result) \<Rightarrow> (error + 'a) \<times> DacFxTestService
     \<Rightarrow> (error + method_result) \<times> DacFxTestService" where
  "resolved_as wrap p = (case p of (r, s) \<Rightarrow> (map_sum id wrap r, s))"

fun invoke :: "call \<Rightarrow> DacFxTestService \<Rightarrow> (error + method_result) \<times> DacFxTestService" where
  "invoke (ExportBacpac a b c m) s = resolved_as DacFxResultRef (exportBacpac a b c m s)"
| "invoke (ImportBacpac a b c m) s = resolved_as DacFxResultRef (importBacpac a b c m s)"
| "invoke (ExtractDacpac a b c d e m) s =
     resolved_as DacFxResultRef (extractDacpac a b c d e m s)"
| "invoke (CreateProjectFromDatabase a b c d e t m) s =
     resolved_as DacFxResultRef (createProjectFromDatabase a b c d e t m s)"
| "invoke (DeployDacpac a b u c m v) s =
     resolved_as DacFxResultRef (deployDacpac a b u c m v s)"
| "invoke (GenerateDeployScript a b c m v) s =
     resolved_as DacFxResultRef (generateDeployScript a b c m v s)"
| "invoke (GenerateDeployPlan a b c m) s =
     resolved_as DeployPlanResult (generateDeployPlan a b c m s)"
| "invoke (GetOptionsFromProfile p) s =
     resolved_as OptionsResult (getOptionsFromProfile p s)"
| "invoke (ValidateStreamingJob a b) s =
     resolved_as StreamingJobResult (validateStreamingJob a b s)"

fun runCalls :: "call list \<Rightarrow> DacFxTestService \<Rightarrow> DacFxTestService" where
  "runCalls [] s = s"
| "runCalls (c # cs) s = runCalls cs (snd (invoke c s))"

text \<open>
  Reading a property of a result, as a caller does after the promise has resolved: through
  the store for a reference, directly for a fresh record. A record type without the
  property reads as \<open>None\<close> (\<open>undefined\<close> in the source language).
\<close>

fun read_success :: "DacFxTestService \<Rightarrow> method_result \<Rightarrow> bool" where
  "read_success s (DacFxResultRef r) = success (heap s r)"
| "read_success s (DeployPlanResult p) = success p"
| "read_success s (OptionsResult p) = success p"
| "read_success s (StreamingJobResult p) = success p"

fun read_errorMessage :: "DacFxTestService \<Rightarrow> method_result \<Rightarrow> string" where
  "read_errorMessage s (DacFxResultRef r) = errorMessage (heap s r)"
| "read_errorMessage s (DeployPlanResult p) = errorMessage p"
| "read_errorMessage s (OptionsResult p) = errorMessage p"
| "read_errorMessage s (StreamingJobResult p) = errorMessage p"

fun read_operationId :: "DacFxTestService \<Rightarrow> method_result \<Rightarrow> string option" where
  "read_operationId s (DacFxResultRef r) = Some (operationId (heap s r))"
| "read_operationId s (DeployPlanResult p) = Some (operationId p)"
| "read_operationId s (OptionsResult p) = None"
| "read_operationId s (StreamingJobResult p) = None"

text \<open>
  The \<open>operationId\<close> a caller reads from the result of a call, right after the call:
  \<open>None\<close> when the promise is rejected or the result has no such field.
\<close>

definition returned_operationId ::
  "(error + method_result) \<times> DacFxTestService \<Rightarrow> string option" where
  "returned_operationId p =
     (case p of (Inl e, s) \<Rightarrow> None | (Inr v, s) \<Rightarrow> read_operationId s v)"

text \<open>
  The methods typed \<open>Promise<mssql.DacFxResult>\<close> in the source: the six that end in
  \<open>return Promise.resolve(this.dacfxResult)\<close>.
\<close>

fun resolves_with_dacfxResult :: "call \<Rightarrow> bool" where
  "resolves_with_dacfxResult (ExportBacpac a b c m) = True"
| "resolves_with_dacfxResult (ImportBacpac a b c m) = True"
| "resolves_with_dacfxResult (ExtractDacpac a b c d e m) = True"
| "resolves_with_dacfxResult (CreateProjectFromDatabase a b c d e t m) = True"
| "resolves_with_dacfxResult (DeployDacpac a b u c m v) = True"
| "resolves_with_dacfxResult (GenerateDeployScript a b c m v) = True"
| "resolves_with_dacfxResult (GenerateDeployPlan a b c m) = False"
| "resolves_with_dacfxResult (GetOptionsFromProfile p) = False"
| "resolves_with_dacfxResult (ValidateStreamingJob a b) = False"

text \<open>
  A store in which nothing has been allocated yet, for the concrete examples below; the
  contents of its cells are never read before the constructor has written them.
\<close>

definition fresh_heap :: "ref \<Rightarrow> DacFxResult" where
  "fresh_heap r = \<lparr>success = False, errorMessage = '''', operationId = ''''\<rparr>"

section \<open>Static extension recommendations\<close>

text \<open>
  Modelled from the spec: the enum \<open>ExtensionRecommendationReason\<close> is declared in
  \<open>vs/workbench/services/extensionRecommendations/common/extensionRecommendations\<close>,
  which is not among the sources; the spec calls it the reason code of a recommendation
  record. The class uses its member \<open>Application\<close> only.
\<close>

datatype ExtensionRecommendationReason =
  Workspace | File | Executable | WorkspaceConfig | DynamicWorkspace | Experimental | Application

record RecommendationReason =
  reasonId :: ExtensionRecommendationReason
  reasonText :: string

record ExtensionRecommendation =
  extensionId :: string
  reason :: RecommendationReason
  source :: string

record IProductService =
  recommendedExtensions :: "string list"

text \<open>
  The object state: the field \<open>_recommendations\<close>, called \<open>recommendations_field\<close> here
  to keep it apart from the getter \<open>recommendations\<close>.
\<close>

record StaticRecommendations =
  recommendations_field :: "ExtensionRecommendation list"

text \<open>
  The constructor. The field initialiser sets \<open>[]\<close> first and the constructor body then
  assigns the mapped list; \<open>localize\<close> (of \<open>vs/nls\<close>) is the host's lookup of a
  message by key with its default text, taken as a parameter.
\<close>

definition StaticRecommendations_new ::
  "(string \<Rightarrow> string \<Rightarrow> string) \<Rightarrow> IProductService \<Rightarrow> StaticRecommendations" where
  "StaticRecommendations_new localize productService =
     (let this = \<lparr>recommendations_field = []\<rparr>
      in this\<lparr>recommendations_field :=
           map (\<lambda>r. \<lparr>extensionId = r,
                     reason = \<lparr>reasonId = Application,
                               reasonText = localize ''defaultRecommendations''
                                 ''This extension is recommended by Azure Data Studio.''\<rparr>,
                     source = ''application''\<rparr>)
               (recommendedExtensions productService)\<rparr>)"

definition recommendations :: "StaticRecommendations \<Rightarrow> ExtensionRecommendation list" where
  "recommendations this = recommendations_field this"

definition doActivate :: "StaticRecommendations \<Rightarrow> (error + unit) \<times> StaticRecommendations" where
  "doActivate this = (Inr (), this)"

text \<open>The default-locale \<open>localize\<close>, which answers the default text, for the examples.\<close>

definition localize_default :: "string \<Rightarrow> string \<Rightarrow> string" where
  "localize_default key message = message"

section \<open>The query history provider\<close>

subsection \<open>Data\<close>

text \<open>
  A history item has the four fields of the object literal passed to \<open>unshift\<close>. The
  connection profile is the host's type; the two fields this class reads are kept. A
  timestamp is a \<open>Date\<close>, a number of milliseconds.

  \<open>deleteItem\<close> compares items with \<open>!==\<close>, by object identity, so an item object is
  its reference together with its contents (which the class never changes).
\<close>

record ConnectionProfile =
  serverName :: string
  databaseName :: string

record QueryHistoryItem =
  queryText :: string
  connectionProfile :: "ConnectionProfile option"
  timestamp :: int
  isSuccess :: bool

type_synonym item_object = "ref \<times> QueryHistoryItem"

text \<open>
  The host's types of the event, with the members this class reads: a \<open>vscode.Range\<close>
  is a start and an end position (line and character), a text document has its URI (as
  \<open>uri.toString()\<close> prints it) and \<open>getText\<close>, whose result the source guards with
  \<open>?? ''\<close>; a query document carries its URI as a string; a message has its error flag;
  the query info has the messages and the batch ranges.
\<close>

type_synonym Range = "(nat \<times> nat) \<times> (nat \<times> nat)"

record TextDocument =
  documentUri :: string
  getText :: "Range \<Rightarrow> string option"

record QueryDocument =
  uri :: string

record QueryMessage =
  isError :: bool

record QueryInfo =
  messages :: "QueryMessage list"
  batchRanges :: "Range list"

subsection \<open>The host\<close>

text \<open>
  What the host answers while the provider runs: the open text documents,
  \<open>vscode.Uri.parse(u).toString()\<close> (which throws for a string it cannot parse:
  \<open>Inl\<close>), \<open>azdata.connection.getConnection\<close> (a promise), the clock read by
  \<open>new Date()\<close>, \<open>os.EOL\<close>, \<open>JSON.stringify\<close> on a list of items and \<open>JSON.parse\<close>
  (which throws on text that is not JSON), whether \<open>secrets.get\<close>, \<open>secrets.store\<close>
  and \<open>secrets.delete\<close> reject (\<open>Some e\<close>) or resolve (\<open>None\<close>), and the two
  settings of the configuration section, \<open>None\<close> when a setting is not set.
\<close>

record host =
  textDocuments :: "TextDocument list"
  uri_toString :: "string \<Rightarrow> error + string"
  getConnection :: "string \<Rightarrow> error + ConnectionProfile option"
  new_Date :: int
  EOL :: string
  JSON_stringify :: "QueryHistoryItem list \<Rightarrow> string"
  JSON_parse :: "string \<Rightarrow> error + QueryHistoryItem list"
  secrets_get_rejects :: "error option"
  secrets_store_rejects :: "error option"
  secrets_delete_rejects :: "error option"
  config_captureEnabled :: "bool option"
  config_persistHistory :: "bool option"

text \<open>
  The calls the provider makes on the host, in the order it makes them: the writes to
  the secret storage, the tree-data-change event and the error console.
\<close>

datatype host_call =
  SecretsStore string string
| SecretsDelete string
| FireDidChangeTreeData
| ConsoleError string

subsection \<open>The provider object\<close>

definition STORAGE_KEY :: string where
  "STORAGE_KEY = ''queryHistory.historyItems''"

definition DEFAULT_CAPTURE_ENABLED :: bool where
  "DEFAULT_CAPTURE_ENABLED = True"

definition DEFAULT_PERSIST_HISTORY :: bool where
  "DEFAULT_PERSIST_HISTORY = True"

text \<open>
  The private fields \<open>_queryHistoryItems\<close>, \<open>_captureEnabled\<close> and \<open>_persistHistory\<close>
  (without the underscore), the secret storage of the extension context (a key/value
  store of strings), the host calls made so far, and the next free object reference.
  A call on the secret storage takes effect when it is made; its promise settles later.
\<close>

record QueryHistoryProvider =
  queryHistoryItems :: "item_object list"
  captureEnabled :: bool
  persistHistory :: bool
  secrets :: "string \<rightharpoonup> string"
  host_calls :: "host_call list"
  next_ref :: ref

definition fire :: "QueryHistoryProvider \<Rightarrow> QueryHistoryProvider" where
  "fire s = s\<lparr>host_calls := host_calls s @ [FireDidChangeTreeData]\<rparr>"

text \<open>
  \<open>storeHistory\<close>: one call of \<open>secrets.store\<close> when persistence is on, none otherwise.
  A rejected write leaves the storage as it was.
\<close>

definition storeHistory :: "host \<Rightarrow> QueryHistoryProvider \<Rightarrow> (error + unit) \<times> QueryHistoryProvider" where
  "storeHistory h s =
     (if persistHistory s then
        (let v = JSON_stringify h (map snd (queryHistoryItems s));
             s' = s\<lparr>host_calls := host_calls s @ [SecretsStore STORAGE_KEY v]\<rparr>
         in case secrets_store_rejects h of
              None \<Rightarrow> (Inr (), s'\<lparr>secrets := (secrets s')(STORAGE_KEY \<mapsto> v)\<rparr>)
            | Some e \<Rightarrow> (Inl e, s'))
      else (Inr (), s))"

text \<open>
  \<open>await this.storeHistory(); this._onDidChangeTreeData.fire(undefined)\<close>, the common
  end of the three mutating operations: a rejection of the awaited promise leaves the
  operation at once.
\<close>

definition store_then_fire :: "host \<Rightarrow> QueryHistoryProvider \<Rightarrow> (error + unit) \<times> QueryHistoryProvider" where
  "store_then_fire h s =
     (case storeHistory h s of
        (Inl e, s') \<Rightarrow> (Inl e, s')
      | (Inr u, s') \<Rightarrow> (Inr (), fire s'))"

definition clearAll :: "host \<Rightarrow> QueryHistoryProvider \<Rightarrow> (error + unit) \<times> QueryHistoryProvider" where
  "clearAll h s = store_then_fire h (s\<lparr>queryHistoryItems := []\<rparr>)"

definition deleteItem ::
  "host \<Rightarrow> item_object \<Rightarrow> QueryHistoryProvider \<Rightarrow> (error + unit) \<times> QueryHistoryProvider" where
  "deleteItem h item s =
     store_then_fire h
       (s\<lparr>queryHistoryItems := filter (\<lambda>n. fst n \<noteq> fst item) (queryHistoryItems s)\<rparr>)"

definition getChildren :: "item_object option \<Rightarrow> QueryHistoryProvider \<Rightarrow> item_object list" where
  "getChildren element s = queryHistoryItems s"

text \<open>
  \<open>updateConfigurationValues\<close>: \<open>configSection.get(key, default)\<close> answers the default
  when the setting is not set.
\<close>

definition updateConfigurationValues ::
  "host \<Rightarrow> QueryHistoryProvider \<Rightarrow> (error + unit) \<times> QueryHistoryProvider" where
  "updateConfigurationValues h s =
     (let s1 = s\<lparr>captureEnabled :=
                   (case config_captureEnabled h of None \<Rightarrow> DEFAULT_CAPTURE_ENABLED | Some b \<Rightarrow> b),
                 persistHistory :=
                   (case config_persistHistory h of None \<Rightarrow> DEFAULT_PERSIST_HISTORY | Some b \<Rightarrow> b)\<rparr>
      in if \<not> persistHistory s1 then
           (let s2 = s1\<lparr>host_calls := host_calls s1 @ [SecretsDelete STORAGE_KEY]\<rparr>
            in case secrets_delete_rejects h of
                 None \<Rightarrow> (Inr (), s2\<lparr>secrets := (secrets s2)(STORAGE_KEY := None)\<rparr>)
               | Some e \<Rightarrow> (Inl e, s2))
         else storeHistory h s1)"

text \<open>
  The callback of the constructor on \<open>secrets.get(STORAGE_KEY)\<close>, given the value the
  promise resolves with (\<open>None\<close> is \<open>undefined\<close>). \<open>if (value)\<close> is false for
  \<open>undefined\<close> and for the empty string. The parsed items are new objects, so they
  take fresh references.
\<close>

definition loadStoredHistory ::
  "host \<Rightarrow> string option \<Rightarrow> QueryHistoryProvider \<Rightarrow> (error + unit) \<times> QueryHistoryProvider" where
  "loadStoredHistory h stored s =
     (case stored of
        None \<Rightarrow> (Inr (), s)
      | Some v \<Rightarrow>
          if v = [] then (Inr (), s)
          else (case JSON_parse h v of
                  Inl e \<Rightarrow> (Inl e, s)
                | Inr items \<Rightarrow>
                    (Inr (),
                     fire (s\<lparr>queryHistoryItems :=
                                zip [next_ref s ..< next_ref s + length items] items,
                              next_ref := next_ref s + length items\<rparr>))))"

text \<open>
  The constructor, in the order of its statements. \<open>secrets.get\<close> is called first and
  reads the storage as the context hands it over; its callback runs once the
  constructor has returned. Then comes \<open>void this.updateConfigurationValues()\<close>, which
  sets the two flags and makes its call on the secret storage; its outcome is dropped.
  Last the callback runs on the value read (not at all when \<open>secrets.get\<close> rejects);
  the promise is dropped with \<open>void\<close>, so an error of \<open>JSON.parse\<close> reaches nobody.
  The registration of the two listeners is the host's part.
\<close>

definition QueryHistoryProvider_new :: "host \<Rightarrow> (string \<rightharpoonup> string) \<Rightarrow> QueryHistoryProvider" where
  "QueryHistoryProvider_new h storage =
     (let stored = storage STORAGE_KEY;
          s1 = snd (updateConfigurationValues h
                 \<lparr>queryHistoryItems = [],
                  captureEnabled = DEFAULT_CAPTURE_ENABLED,
                  persistHistory = DEFAULT_PERSIST_HISTORY,
                  secrets = storage,
                  host_calls = [],
                  next_ref = 0\<rparr>)
      in case secrets_get_rejects h of
           Some e \<Rightarrow> s1
         | None \<Rightarrow> snd (loadStoredHistory h stored s1))"

subsection \<open>The query event listener\<close>

text \<open>\<open>Array.prototype.join\<close> on strings.\<close>

fun join :: "string \<Rightarrow> string list \<Rightarrow> string" where
  "join sep [] = []"
| "join sep [x] = x"
| "join sep (x # y # ys) = x @ sep @ join sep (y # ys)"

text \<open>
  \<open>Array.prototype.find\<close> with a callback that may throw: the search stops at the first
  element the callback accepts, and an exception of the callback leaves the search (and
  the caller) at once. On the empty array the callback is never called.
\<close>

fun find_throwing :: "('a \<Rightarrow> error + bool) \<Rightarrow> 'a list \<Rightarrow> error + 'a option" where
  "find_throwing predicate [] = Inr None"
| "find_throwing predicate (x # xs) =
     (case predicate x of
        Inl e \<Rightarrow> Inl e
      | Inr b \<Rightarrow> if b then Inr (Some x) else find_throwing predicate xs)"

text \<open>
  The callback \<open>e => e.uri.toString() === vscode.Uri.parse(document.uri).toString()\<close>:
  it parses the URI of the event each time it is called.
\<close>

definition same_uri :: "host \<Rightarrow> QueryDocument \<Rightarrow> TextDocument \<Rightarrow> error + bool" where
  "same_uri h document e =
     (case uri_toString h (uri document) of
        Inl err \<Rightarrow> Inl err
      | Inr u \<Rightarrow> Inr (documentUri e = u))"

text \<open>
  \<open>onQueryEvent\<close>, as one run of the handler with nothing else in between. The event
  type is the host's string union, compared with \<open>'queryStop'\<close>; \<open>queryInfo\<close> is
  optional, and the test \<open>queryInfo &&\<close> of the guard is the case distinction on it;
  \<open>args\<close> is not read. An exception of \<open>vscode.Uri.parse\<close> and a rejected
  \<open>getConnection\<close> reject the handler before anything is logged or recorded. The
  locals that share their name with a field of the item carry a prime.
\<close>

definition onQueryEvent ::
  "host \<Rightarrow> string \<Rightarrow> QueryDocument \<Rightarrow> 'a \<Rightarrow> QueryInfo option \<Rightarrow> QueryHistoryProvider
     \<Rightarrow> (error + unit) \<times> QueryHistoryProvider" where
  "onQueryEvent h type document args queryInfo s =
     (case queryInfo of
        None \<Rightarrow> (Inr (), s)
      | Some info \<Rightarrow>
          if captureEnabled s \<and> type = ''queryStop'' then
            (case find_throwing (same_uri h document) (textDocuments h) of
               Inl err \<Rightarrow> (Inl err, s)
             | Inr None \<Rightarrow>
                 (Inr (),
                  s\<lparr>host_calls := host_calls s @
                       [ConsoleError (''Couldn'' @ [CHR 0x27] @ ''t find text document with URI ''
                          @ uri document @ '' for query event'')]\<rparr>)
             | Inr (Some textDocument) \<Rightarrow>
                 (let queryText' =
                        join (EOL h)
                          (map (\<lambda>r. case getText textDocument r of None \<Rightarrow> [] | Some t \<Rightarrow> t)
                             (batchRanges info))
                  in case getConnection h (uri document) of
                       Inl e \<Rightarrow> (Inl e, s)
                     | Inr connectionProfile' \<Rightarrow>
                         (let isSuccess' =
                                (case find isError (messages info) of
                                   Some m \<Rightarrow> False | None \<Rightarrow> True);
                              item = (next_ref s,
                                      \<lparr>queryText = queryText',
                                       connectionProfile = connectionProfile',
                                       timestamp = new_Date h,
                                       isSuccess = isSuccess'\<rparr>)
                          in store_then_fire h
                               (s\<lparr>queryHistoryItems := item # queryHistoryItems s,
                                  next_ref := Suc (next_ref s)\<rparr>))))
          else (Inr (), s))"

subsection \<open>Handlers that overlap\<close>

text \<open>
  The handler is an \<open>async\<close> function with two \<open>await\<close>s, and the host does not wait
  for one handler before it delivers the next event: while a handler waits for
  \<open>getConnection\<close> or for \<open>storeHistory\<close>, other handlers run. The handler is
  therefore also given in its three parts. A part either ends the handler (\<open>Done\<close>)
  or suspends it at an \<open>await\<close> with what the rest of the handler needs (\<open>Await\<close>).
\<close>

datatype 'p suspension = Done "error + unit" | Await 'p

text \<open>
  What the handler holds while it waits for \<open>getConnection\<close>: the query text, the
  query info, and the promise, given by the outcome it will settle with.
\<close>

record pending_query =
  pq_queryText :: string
  pq_info :: QueryInfo
  pq_connection :: "error + ConnectionProfile option"

text \<open>From the delivery of the event to \<open>await azdata.connection.getConnection\<close>.\<close>

definition onQueryEvent_start ::
  "host \<Rightarrow> string \<Rightarrow> QueryDocument \<Rightarrow> 'a \<Rightarrow> QueryInfo option \<Rightarrow> QueryHistoryProvider
     \<Rightarrow> pending_query suspension \<times> QueryHistoryProvider" where
  "onQueryEvent_start h type document args queryInfo s =
     (case queryInfo of
        None \<Rightarrow> (Done (Inr ()), s)
      | Some info \<Rightarrow>
          if captureEnabled s \<and> type = ''queryStop'' then
            (case find_throwing (same_uri h document) (textDocuments h) of
               Inl err \<Rightarrow> (Done (Inl err), s)
             | Inr None \<Rightarrow>
                 (Done (Inr ()),
                  s\<lparr>host_calls := host_calls s @
                       [ConsoleError (''Couldn'' @ [CHR 0x27] @ ''t find text document with URI ''
                          @ uri document @ '' for query event'')]\<rparr>)
             | Inr (Some textDocument) \<Rightarrow>
                 (Await
                    \<lparr>pq_queryText =
                       join (EOL h)
                         (map (\<lambda>r. case getText textDocument r of None \<Rightarrow> [] | Some t \<Rightarrow> t)
                            (batchRanges info)),
                     pq_info = info,
                     pq_connection = getConnection h (uri document)\<rparr>,
                  s))
          else (Done (Inr ()), s))"

text \<open>
  From the settling of \<open>getConnection\<close> to \<open>await this.storeHistory()\<close>: the item is
  put in front with the time of this moment, and \<open>storeHistory\<close> makes its call. The
  handler then waits for the promise of \<open>storeHistory\<close>, given by its outcome.
\<close>

definition onQueryEvent_connected ::
  "host \<Rightarrow> pending_query \<Rightarrow> QueryHistoryProvider
     \<Rightarrow> (error + unit) suspension \<times> QueryHistoryProvider" where
  "onQueryEvent_connected h p s =
     (case pq_connection p of
        Inl e \<Rightarrow> (Done (Inl e), s)
      | Inr connectionProfile' \<Rightarrow>
          (let isSuccess' =
                 (case find isError (messages (pq_info p)) of
                    Some m \<Rightarrow> False | None \<Rightarrow> True);
               item = (next_ref s,
                       \<lparr>queryText = pq_queryText p,
                        connectionProfile = connectionProfile',
                        timestamp = new_Date h,
                        isSuccess = isSuccess'\<rparr>)
           in case storeHistory h
                     (s\<lparr>queryHistoryItems := item # queryHistoryItems s,
                        next_ref := Suc (next_ref s)\<rparr>) of
                (outcome, s') \<Rightarrow> (Await outcome, s')))"

text \<open>From the settling of \<open>storeHistory\<close> to the end of the handler.\<close>

definition onQueryEvent_stored ::
  "error + unit \<Rightarrow> QueryHistoryProvider \<Rightarrow> (error + unit) \<times> QueryHistoryProvider" where
  "onQueryEvent_stored outcome s =
     (case outcome of
        Inl e \<Rightarrow> (Inl e, s)
      | Inr u \<Rightarrow> (Inr (), fire s))"

text \<open>
  The handlers started so far, in the order of their events, each waiting at one of
  its \<open>await\<close>s or finished. The host either delivers an event, which starts a new
  handler, or settles the promise that handler number \<open>n\<close> waits for, which runs the
  next part of that handler (on the host as it is at that moment). A schedule is a
  list of such actions.
\<close>

record 'a query_event =
  ev_host :: host
  ev_type :: string
  ev_document :: QueryDocument
  ev_args :: 'a
  ev_queryInfo :: "QueryInfo option"





subsection \<open>A concrete host for the examples\<close>

text \<open>
  Two open query documents holding \<open>SELECT 1\<close> and \<open>SELECT 2\<close>, a connection to
  \<open>master\<close> on \<open>localhost\<close>, a serialiser that lists the query texts, and a host
  parameterised by the \<open>persistHistory\<close> setting and by the outcome of
  \<open>secrets.store\<close>. The URI parser of the example host answers as \<open>vscode.Uri.parse\<close>
  does on the strings used below: it throws on a scheme with a blank in it and prints
  every other string as it is. Its \<open>JSON.parse\<close> reads the empty array and throws on
  any other text.
\<close>

definition example_getText :: "Range \<Rightarrow> string option" where
  "example_getText r = Some ''SELECT 1''"

definition example_textDocument :: TextDocument where
  "example_textDocument = \<lparr>documentUri = ''untitled:SQLQuery_1'', getText = example_getText\<rparr>"

definition example_document :: QueryDocument where
  "example_document = \<lparr>uri = ''untitled:SQLQuery_1''\<rparr>"

definition example_getText2 :: "Range \<Rightarrow> string option" where
  "example_getText2 r = Some ''SELECT 2''"

definition example_textDocument2 :: TextDocument where
  "example_textDocument2 = \<lparr>documentUri = ''untitled:SQLQuery_2'', getText = example_getText2\<rparr>"

definition example_document2 :: QueryDocument where
  "example_document2 = \<lparr>uri = ''untitled:SQLQuery_2''\<rparr>"

definition example_queryInfo :: QueryInfo where
  "example_queryInfo =
     \<lparr>messages = [\<lparr>isError = False\<rparr>],
      batchRanges = [((0, 0), (0, 8))]\<rparr>"

definition example_getConnection :: "string \<Rightarrow> error + ConnectionProfile option" where
  "example_getConnection u = Inr (Some \<lparr>serverName = ''localhost'', databaseName = ''master''\<rparr>)"

definition example_stringify :: "QueryHistoryItem list \<Rightarrow> string" where
  "example_stringify items = ''['' @ join '','' (map queryText items) @ '']''"

definition example_parse :: "string \<Rightarrow> error + QueryHistoryItem list" where
  "example_parse v =
     (if v = ''[]'' then Inr [] else Inl (HostError ''SyntaxError: Unexpected token''))"

definition example_uri_toString :: "string \<Rightarrow> error + string" where
  "example_uri_toString u =
     (if CHR '':'' \<in> set u \<and> CHR '' '' \<in> set (takeWhile (\<lambda>c. c \<noteq> CHR '':'') u)
      then Inl (HostError ''[UriError]: Scheme contains illegal characters.'')
      else Inr u)"

definition example_host :: "bool option \<Rightarrow> error option \<Rightarrow> host" where
  "example_host persist store_rejects =
     \<lparr>textDocuments = [example_textDocument, example_textDocument2],
      uri_toString = example_uri_toString,
      getConnection = example_getConnection,
      new_Date = 1700000000000,
      EOL = [CHR 0x0A],
      JSON_stringify = example_stringify,
      JSON_parse = example_parse,
      secrets_get_rejects = None,
      secrets_store_rejects = store_rejects,
      secrets_delete_rejects = None,
      config_captureEnabled = None,
      config_persistHistory = persist\<rparr>"

text \<open>A query-stop event on a document, and the example host when its clock shows \<open>t\<close>.\<close>

definition example_event :: "QueryDocument \<Rightarrow> unit query_event" where
  "example_event document =
     \<lparr>ev_host = example_host None None,
      ev_type = ''queryStop'',
      ev_document = document,
      ev_args = (),
      ev_queryInfo = Some example_queryInfo\<rparr>"

definition example_host_at :: "int \<Rightarrow> host" where
  "example_host_at t = (example_host None None)\<lparr>new_Date := t\<rparr>"

text \<open>
  A provider constructed over an empty secret storage, with no setting set (so both
  defaults apply), and one constructed with the setting \<open>persistHistory\<close> set to false.
\<close>

definition example_provider :: QueryHistoryProvider where
  "example_provider = QueryHistoryProvider_new (example_host None None) Map.empty"


section \<open>Properties of the DacFx test service\<close>

lemmas operation_consts =
  deployOperationId_def extractOperationId_def exportOperationId_def importOperationId_def
  generateScript_def generateDeployPlan_const_def validateStreamingJob_const_def

lemmas method_defs =
  exportBacpac_def importBacpac_def extractDacpac_def createProjectFromDatabase_def
  deployDacpac_def generateDeployScript_def generateDeployPlan_def
  getOptionsFromProfile_def validateStreamingJob_def

lemma heap_assign [simp]:
  "heap (assign_operationId v s) =
     (heap s)(dacfxResult s := (heap s (dacfxResult s))\<lparr>operationId := v\<rparr>)"
  by (simp add: assign_operationId_def)

lemma dacfxResult_assign [simp]: "dacfxResult (assign_operationId v s) = dacfxResult s"
  by (simp add: assign_operationId_def)

text \<open>No method reassigns the field \<open>dacfxResult\<close>, and none writes \<open>success\<close> or
  \<open>errorMessage\<close> of the object it refers to.\<close>

lemma dacfxResult_invoke: "dacfxResult (snd (invoke c s)) = dacfxResult s"
  by (cases c) (simp_all add: method_defs resolved_as_def Let_def)

lemma status_invoke:
  "success (heap (snd (invoke c s)) (dacfxResult s)) = success (heap s (dacfxResult s)) \<and>
   errorMessage (heap (snd (invoke c s)) (dacfxResult s)) = errorMessage (heap s (dacfxResult s))"
  by (cases c) (simp_all add: method_defs resolved_as_def Let_def)

lemma status_runCalls:
  "dacfxResult (runCalls cs s) = dacfxResult s \<and>
   success (heap (runCalls cs s) (dacfxResult s)) = success (heap s (dacfxResult s)) \<and>
   errorMessage (heap (runCalls cs s) (dacfxResult s)) = errorMessage (heap s (dacfxResult s))"
proof (induction cs arbitrary: s)
  case Nil
  show ?case by simp
next
  case (Cons c cs)
  from Cons.IH [of "snd (invoke c s)"] show ?case
    by (simp add: dacfxResult_invoke status_invoke)
qed

lemma status_new:
  "dacfxResult (DacFxTestService_new h r) = r \<and>
   success (heap (DacFxTestService_new h r) r) \<and>
   errorMessage (heap (DacFxTestService_new h r) r) = ''''"
  by (simp add: DacFxTestService_new_def)

lemma invoke_ok:
  assumes "success (heap s (dacfxResult s))" and "errorMessage (heap s (dacfxResult s)) = ''''"
  shows "\<exists>v. fst (invoke c s) = Inr v \<and> read_success (snd (invoke c s)) v \<and>
           read_errorMessage (snd (invoke c s)) v = ''''"
  using assms by (cases c) (simp_all add: method_defs resolved_as_def Let_def)

text \<open>
  C3, as amended. For every state of the service and all argument values, the
  \<open>operationId\<close> read from the result of a call is fixed by the method alone: the
  designated constant for \<open>deployDacpac\<close>, \<open>extractDacpac\<close>, \<open>exportBacpac\<close>,
  \<open>importBacpac\<close>, \<open>generateDeployScript\<close> and \<open>generateDeployPlan\<close>;
  \<open>'import bacpac'\<close> for \<open>createProjectFromDatabase\<close>; and no \<open>operationId\<close> at all
  for \<open>getOptionsFromProfile\<close> and \<open>validateStreamingJob\<close>, whose result records do
  not have the field.
\<close>

theorem operationId_of_each_method:
  "returned_operationId (invoke c s) =
     (case c of
        DeployDacpac a b u d m v \<Rightarrow> Some ''deploy dacpac''
      | ExtractDacpac a b d e f m \<Rightarrow> Some ''extract dacpac''
      | ExportBacpac a b d m \<Rightarrow> Some ''export bacpac''
      | ImportBacpac a b d m \<Rightarrow> Some ''import bacpac''
      | GenerateDeployScript a b d m v \<Rightarrow> Some ''generate script''
      | GenerateDeployPlan a b d m \<Rightarrow> Some ''generate deploy plan''
      | CreateProjectFromDatabase a b d e f t m \<Rightarrow> Some ''import bacpac''
      | GetOptionsFromProfile p \<Rightarrow> None
      | ValidateStreamingJob a b \<Rightarrow> None)"
  by (cases c)
     (simp_all add: returned_operationId_def method_defs resolved_as_def Let_def operation_consts)

text \<open>
  C3 as stated fails for \<open>getOptionsFromProfile\<close>: on a new service the result of the
  call has no \<open>operationId\<close>, and the \<open>operationId\<close> of the service's own record is
  still the initial \<open>'test'\<close>.
\<close>

theorem getOptionsFromProfile_counterexample:
  "returned_operationId
     (invoke (GetOptionsFromProfile ''profile.xml'') (DacFxTestService_new fresh_heap 0)) = None \<and>
   operationId
     (heap (snd (invoke (GetOptionsFromProfile ''profile.xml'') (DacFxTestService_new fresh_heap 0)))
        0) = ''test''"
  by (simp add: returned_operationId_def method_defs resolved_as_def Let_def
        DacFxTestService_new_def)

text \<open>
  C4. On a service made by the constructor, after any sequence of calls, every call
  of every method with any arguments resolves (it is never rejected), and the result
  it resolves with reads \<open>success = true\<close> and \<open>errorMessage = ''\<close>.
\<close>

theorem service_never_reports_failure:
  "\<exists>v. fst (invoke c (runCalls cs (DacFxTestService_new h r))) = Inr v \<and>
       read_success (snd (invoke c (runCalls cs (DacFxTestService_new h r)))) v \<and>
       read_errorMessage (snd (invoke c (runCalls cs (DacFxTestService_new h r)))) v = ''''"
proof (rule invoke_ok)
  let ?s0 = "DacFxTestService_new h r"
  show "success (heap (runCalls cs ?s0) (dacfxResult (runCalls cs ?s0)))"
    using status_runCalls [of cs ?s0] status_new [of h r] by simp
  show "errorMessage (heap (runCalls cs ?s0) (dacfxResult (runCalls cs ?s0))) = ''''"
    using status_runCalls [of cs ?s0] status_new [of h r] by simp
qed

text \<open>
  C8. Each of \<open>exportBacpac\<close>, \<open>importBacpac\<close>, \<open>extractDacpac\<close>,
  \<open>createProjectFromDatabase\<close>, \<open>deployDacpac\<close> and \<open>generateDeployScript\<close> resolves
  with the reference held in the field \<open>dacfxResult\<close>, not with a copy: a second call of
  any of them resolves with the same reference, and the \<open>operationId\<close> then read through
  the result of the first call is the constant the second method assigns.
\<close>

theorem dacfxResult_shared:
  assumes "resolves_with_dacfxResult c1" and "resolves_with_dacfxResult c2"
  shows "fst (invoke c1 s) = Inr (DacFxResultRef (dacfxResult s)) \<and>
         fst (invoke c2 (snd (invoke c1 s))) = Inr (DacFxResultRef (dacfxResult s)) \<and>
         read_operationId (snd (invoke c2 (snd (invoke c1 s)))) (DacFxResultRef (dacfxResult s)) =
           Some (case c2 of
                   ExportBacpac a b d m \<Rightarrow> ''export bacpac''
                 | ImportBacpac a b d m \<Rightarrow> ''import bacpac''
                 | ExtractDacpac a b d e f m \<Rightarrow> ''extract dacpac''
                 | CreateProjectFromDatabase a b d e f t m \<Rightarrow> ''import bacpac''
                 | DeployDacpac a b u d m v \<Rightarrow> ''deploy dacpac''
                 | GenerateDeployScript a b d m v \<Rightarrow> ''generate script''
                 | _ \<Rightarrow> [])"
  using assms
  by (cases c1; cases c2)
     (simp_all add: method_defs resolved_as_def Let_def operation_consts)

text \<open>
  An instance: \<open>exportBacpac\<close> on a new service at reference 0, then \<open>deployDacpac\<close>.
  The first result read at once shows \<open>'export bacpac'\<close>; read after the second call
  it shows \<open>'deploy dacpac'\<close>.
\<close>

theorem dacfxResult_shared_witness:
  "resolves_with_dacfxResult (ExportBacpac ''db'' ''p.bacpac'' ''uri'' 0) \<and>
   resolves_with_dacfxResult (DeployDacpac ''p.dacpac'' ''db'' True ''uri'' 0 None) \<and>
   returned_operationId
     (invoke (ExportBacpac ''db'' ''p.bacpac'' ''uri'' 0) (DacFxTestService_new fresh_heap 0)) =
     Some ''export bacpac'' \<and>
   fst (invoke (ExportBacpac ''db'' ''p.bacpac'' ''uri'' 0) (DacFxTestService_new fresh_heap 0)) =
     Inr (DacFxResultRef 0) \<and>
   read_operationId
     (snd (invoke (DeployDacpac ''p.dacpac'' ''db'' True ''uri'' 0 None)
        (snd (invoke (ExportBacpac ''db'' ''p.bacpac'' ''uri'' 0)
           (DacFxTestService_new fresh_heap 0)))))
     (DacFxResultRef 0) = Some ''deploy dacpac''"
  using dacfxResult_shared [of "ExportBacpac ''db'' ''p.bacpac'' ''uri'' 0"
      "DeployDacpac ''p.dacpac'' ''db'' True ''uri'' 0 None" "DacFxTestService_new fresh_heap 0"]
  by (simp add: DacFxTestService_new_def returned_operationId_def method_defs resolved_as_def
        Let_def operation_consts)

section \<open>Properties of the static recommendations\<close>

text \<open>
  C5. The list is built by the constructor: it has one record per entry of
  \<open>productService.recommendedExtensions\<close>, in the same order, each with the entry as
  \<open>extensionId\<close>, the reason \<open>Application\<close> with the localised text, and the source
  \<open>'application'\<close>. \<open>doActivate\<close> resolves and leaves the list as it is.
\<close>

theorem static_recommendations_built_once:
  "map extensionId (recommendations (StaticRecommendations_new localize productService)) =
     recommendedExtensions productService \<and>
   (\<forall>r \<in> set (recommendations (StaticRecommendations_new localize productService)).
      reasonId (reason r) = Application \<and>
      reasonText (reason r) =
        localize ''defaultRecommendations'' ''This extension is recommended by Azure Data Studio.'' \<and>
      source r = ''application'') \<and>
   fst (doActivate this) = Inr () \<and>
   recommendations (snd (doActivate this)) = recommendations this"
  by (auto simp: StaticRecommendations_new_def recommendations_def doActivate_def Let_def comp_def)

text \<open>An instance with two configured extensions, read after \<open>doActivate\<close>.\<close>

theorem static_recommendations_built_once_witness:
  "recommendations
     (snd (doActivate (StaticRecommendations_new localize_default
        \<lparr>recommendedExtensions = [''microsoft.admin-pack'', ''microsoft.import'']\<rparr>))) =
   [\<lparr>extensionId = ''microsoft.admin-pack'',
     reason = \<lparr>reasonId = Application,
               reasonText = ''This extension is recommended by Azure Data Studio.''\<rparr>,
     source = ''application''\<rparr>,
    \<lparr>extensionId = ''microsoft.import'',
     reason = \<lparr>reasonId = Application,
               reasonText = ''This extension is recommended by Azure Data Studio.''\<rparr>,
     source = ''application''\<rparr>]"
  using static_recommendations_built_once [of localize_default
      "\<lparr>recommendedExtensions = [''microsoft.admin-pack'', ''microsoft.import'']\<rparr>"
      "StaticRecommendations_new localize_default
        \<lparr>recommendedExtensions = [''microsoft.admin-pack'', ''microsoft.import'']\<rparr>"]
  by (simp add: StaticRecommendations_new_def recommendations_def doActivate_def Let_def
        localize_default_def)

section \<open>Properties of the query history provider\<close>

lemmas provider_defs =
  storeHistory_def store_then_fire_def fire_def clearAll_def deleteItem_def

lemmas example_defs =
  example_host_def example_textDocument_def example_document_def example_queryInfo_def
  example_textDocument2_def example_document2_def example_getText2_def
  example_getConnection_def example_getText_def example_stringify_def example_event_def
  example_parse_def example_uri_toString_def example_host_at_def same_uri_def
  QueryHistoryProvider_new_def updateConfigurationValues_def loadStoredHistory_def
  DEFAULT_CAPTURE_ENABLED_def DEFAULT_PERSIST_HISTORY_def STORAGE_KEY_def

subsection \<open>The common end of the mutating operations\<close>





lemma store_then_fire_rejected:
  assumes "persistHistory s" and "secrets_store_rejects h = Some e"
  shows "store_then_fire h s =
           (Inl e, s\<lparr>host_calls := host_calls s @
              [SecretsStore STORAGE_KEY (JSON_stringify h (map snd (queryHistoryItems s)))]\<rparr>)"
  using assms by (simp add: provider_defs Let_def)

subsection \<open>The search for the text document\<close>

text \<open>When the URI parses, the search is the plain search for a document with that
  URI; when it does not and a document is open, the search throws.\<close>

lemma find_throwing_parsed:
  assumes "uri_toString h (uri document) = Inr u"
  shows "find_throwing (same_uri h document) docs = Inr (find (\<lambda>e. documentUri e = u) docs)"
  using assms by (induction docs) (simp_all add: same_uri_def)

lemma find_throwing_throws:
  assumes "uri_toString h (uri document) = Inl e" and "docs \<noteq> []"
  shows "find_throwing (same_uri h document) docs = Inl e"
  using assms by (cases docs) (simp_all add: same_uri_def)

lemma find_throwing_none:
  assumes "docs = [] \<or>
           (uri_toString h (uri document) = Inr u \<and> (\<forall>e \<in> set docs. documentUri e \<noteq> u))"
  shows "find_throwing (same_uri h document) docs = Inr None"
proof (cases "docs = []")
  case True
  then show ?thesis by simp
next
  case False
  with assms have u: "uri_toString h (uri document) = Inr u"
    and no: "\<forall>e \<in> set docs. documentUri e \<noteq> u"
    by auto
  from no have "find (\<lambda>e. documentUri e = u) docs = None"
    by (simp add: find_None_iff)
  with find_throwing_parsed [OF u, of docs] show ?thesis by simp
qed

subsection \<open>The event handler\<close>

text \<open>The handler changes the list only by putting one new item in front and going on
  to store and fire.\<close>

lemma onQueryEvent_changed:
  assumes "queryHistoryItems (snd (onQueryEvent h type document args queryInfo s)) \<noteq> queryHistoryItems s"
  shows "\<exists>item. onQueryEvent h type document args queryInfo s =
           store_then_fire h (s\<lparr>queryHistoryItems := item # queryHistoryItems s,
                                next_ref := Suc (next_ref s)\<rparr>)"
proof (cases queryInfo)
  case None
  with assms show ?thesis by (simp add: onQueryEvent_def)
next
  case (Some info)
  show ?thesis
  proof (cases "captureEnabled s \<and> type = ''queryStop''")
    case False
    with assms Some show ?thesis by (simp add: onQueryEvent_def)
  next
    case True
    show ?thesis
    proof (cases "find_throwing (same_uri h document) (textDocuments h)")
      case (Inl err)
      with assms Some True show ?thesis by (simp add: onQueryEvent_def)
    next
      case (Inr found)
      show ?thesis
      proof (cases found)
        case None
        with assms Some True Inr show ?thesis by (simp add: onQueryEvent_def)
      next
        case found_doc: (Some textDocument)
        show ?thesis
        proof (cases "getConnection h (uri document)")
          case (Inl e)
          with assms Some True Inr found_doc show ?thesis
            by (simp add: onQueryEvent_def)
        next
          case connected: (Inr profile)
          with Some True Inr found_doc
          have "onQueryEvent h type document args queryInfo s =
                  store_then_fire h
                    (s\<lparr>queryHistoryItems :=
                         (next_ref s,
                          \<lparr>queryText = join (EOL h)
                             (map (\<lambda>r. case getText textDocument r of None \<Rightarrow> [] | Some t \<Rightarrow> t)
                                (batchRanges info)),
                           connectionProfile = profile,
                           timestamp = new_Date h,
                           isSuccess = (case find isError (messages info) of
                                          Some m \<Rightarrow> False | None \<Rightarrow> True)\<rparr>)
                         # queryHistoryItems s,
                       next_ref := Suc (next_ref s)\<rparr>)"
            by (simp add: onQueryEvent_def Let_def)
          then show ?thesis by (rule exI)
        qed
      qed
    qed
  qed
qed


subsection \<open>The handler in its parts\<close>

text \<open>The three parts run one after the other, with nothing in between, are the
  handler.\<close>

lemma onQueryEvent_uninterrupted:
  "onQueryEvent h type document args queryInfo s =
     (case onQueryEvent_start h type document args queryInfo s of
        (Done r, s1) \<Rightarrow> (r, s1)
      | (Await p, s1) \<Rightarrow>
          (case onQueryEvent_connected h p s1 of
             (Done r, s2) \<Rightarrow> (r, s2)
           | (Await outcome, s2) \<Rightarrow> onQueryEvent_stored outcome s2))"
  by (simp add: onQueryEvent_def onQueryEvent_start_def onQueryEvent_connected_def
        onQueryEvent_stored_def store_then_fire_def Let_def
        split: option.splits sum.splits prod.splits)






subsection \<open>The claims\<close>







text \<open>
  C6, as amended. A query-stop event whose document URI matches no open text document,
  where either no text document is open or \<open>vscode.Uri.parse\<close> accepts the URI: the
  handler resolves, the in-memory list and the secret storage are as before, and the
  only host call is the one line on the error console (made when capture is on and
  query info was supplied; otherwise there is no host call at all). Where a text document
  is open and \<open>vscode.Uri.parse\<close> throws on the URI, the capturing handler is rejected
  with that error and the provider is exactly as before: nothing is logged.
\<close>

theorem missing_document_skipped:
  "(type = ''queryStop'' \<and>
    (textDocuments h = [] \<or>
     (uri_toString h (uri document) = Inr u \<and>
      (\<forall>e \<in> set (textDocuments h). documentUri e \<noteq> u))) \<longrightarrow>
      fst (onQueryEvent h type document args queryInfo s) = Inr () \<and>
      queryHistoryItems (snd (onQueryEvent h type document args queryInfo s)) = queryHistoryItems s \<and>
      secrets (snd (onQueryEvent h type document args queryInfo s)) = secrets s \<and>
      host_calls (snd (onQueryEvent h type document args queryInfo s)) =
        host_calls s @
          (if captureEnabled s \<and> queryInfo \<noteq> None
           then [ConsoleError (''Couldn'' @ [CHR 0x27] @ ''t find text document with URI ''
                   @ uri document @ '' for query event'')]
           else [])) \<and>
   (type = ''queryStop'' \<and> captureEnabled s \<and> queryInfo \<noteq> None \<and>
    textDocuments h \<noteq> [] \<and> uri_toString h (uri document) = Inl e \<longrightarrow>
      onQueryEvent h type document args queryInfo s = (Inl e, s))"
proof (intro conjI impI)
  assume a: "type = ''queryStop'' \<and>
    (textDocuments h = [] \<or>
     (uri_toString h (uri document) = Inr u \<and>
      (\<forall>e \<in> set (textDocuments h). documentUri e \<noteq> u)))"
  then have none: "find_throwing (same_uri h document) (textDocuments h) = Inr None"
    using find_throwing_none [of "textDocuments h" h document u] by simp
  from a none show "fst (onQueryEvent h type document args queryInfo s) = Inr ()"
    by (simp add: onQueryEvent_def split: option.splits)
  from a none
  show "queryHistoryItems (snd (onQueryEvent h type document args queryInfo s)) = queryHistoryItems s"
    by (simp add: onQueryEvent_def split: option.splits)
  from a none show "secrets (snd (onQueryEvent h type document args queryInfo s)) = secrets s"
    by (simp add: onQueryEvent_def split: option.splits)
  from a none
  show "host_calls (snd (onQueryEvent h type document args queryInfo s)) =
        host_calls s @
          (if captureEnabled s \<and> queryInfo \<noteq> None
           then [ConsoleError (''Couldn'' @ [CHR 0x27] @ ''t find text document with URI ''
                   @ uri document @ '' for query event'')]
           else [])"
    by (auto simp: onQueryEvent_def split: option.splits)
next
  assume b: "type = ''queryStop'' \<and> captureEnabled s \<and> queryInfo \<noteq> None \<and>
    textDocuments h \<noteq> [] \<and> uri_toString h (uri document) = Inl e"
  then have "find_throwing (same_uri h document) (textDocuments h) = Inl e"
    using find_throwing_throws [of h document e "textDocuments h"] by simp
  with b show "onQueryEvent h type document args queryInfo s = (Inl e, s)"
    by (auto simp: onQueryEvent_def)
qed

text \<open>
  An instance of each part on the example provider, with both example documents open.
  The event on a third document, whose URI parses and matches neither, gets its line
  on the console, and the storage keeps the \<open>[]\<close> written at construction. The event
  with the URI \<open>a b:c\<close>, which the parser refuses, is rejected.
\<close>

theorem missing_document_skipped_witness:
  "uri_toString (example_host None None) (uri \<lparr>uri = ''untitled:SQLQuery_3''\<rparr>) =
     Inr ''untitled:SQLQuery_3'' \<and>
   ''untitled:SQLQuery_3'' \<notin> documentUri ` set (textDocuments (example_host None None)) \<and>
   textDocuments (example_host None None) \<noteq> [] \<and>
   fst (onQueryEvent (example_host None None) ''queryStop'' \<lparr>uri = ''untitled:SQLQuery_3''\<rparr> ()
          (Some example_queryInfo) example_provider) = Inr () \<and>
   queryHistoryItems
     (snd (onQueryEvent (example_host None None) ''queryStop'' \<lparr>uri = ''untitled:SQLQuery_3''\<rparr> ()
             (Some example_queryInfo) example_provider)) = [] \<and>
   secrets
     (snd (onQueryEvent (example_host None None) ''queryStop'' \<lparr>uri = ''untitled:SQLQuery_3''\<rparr> ()
             (Some example_queryInfo) example_provider)) STORAGE_KEY = Some ''[]'' \<and>
   host_calls
     (snd (onQueryEvent (example_host None None) ''queryStop'' \<lparr>uri = ''untitled:SQLQuery_3''\<rparr> ()
             (Some example_queryInfo) example_provider)) =
     [SecretsStore ''queryHistory.historyItems'' ''[]'',
      ConsoleError (''Couldn'' @ [CHR 0x27] @
        ''t find text document with URI untitled:SQLQuery_3 for query event'')] \<and>
   uri_toString (example_host None None) (uri \<lparr>uri = ''a b:c''\<rparr>) =
     Inl (HostError ''[UriError]: Scheme contains illegal characters.'') \<and>
   onQueryEvent (example_host None None) ''queryStop'' \<lparr>uri = ''a b:c''\<rparr> ()
     (Some example_queryInfo) example_provider =
     (Inl (HostError ''[UriError]: Scheme contains illegal characters.''), example_provider)"
proof -
  have cap: "captureEnabled example_provider"
    and calls: "host_calls example_provider = [SecretsStore ''queryHistory.historyItems'' ''[]'']"
    and items: "queryHistoryItems example_provider = []"
    and stored: "secrets example_provider STORAGE_KEY = Some ''[]''"
    by (simp_all add: example_provider_def provider_defs example_defs Let_def)
  have parses: "uri_toString (example_host None None) (uri \<lparr>uri = ''untitled:SQLQuery_3''\<rparr>) =
     Inr ''untitled:SQLQuery_3''"
    and throws: "uri_toString (example_host None None) (uri \<lparr>uri = ''a b:c''\<rparr>) =
     Inl (HostError ''[UriError]: Scheme contains illegal characters.'')"
    and docs_open: "textDocuments (example_host None None) \<noteq> []"
    and other: "''untitled:SQLQuery_3'' \<notin> documentUri ` set (textDocuments (example_host None None))"
    by (simp_all add: example_defs)
  have none: "\<forall>e \<in> set (textDocuments (example_host None None)).
      documentUri e \<noteq> ''untitled:SQLQuery_3''"
    by (simp add: example_defs)
  from parses none
  have hyp1: "''queryStop'' = ''queryStop'' \<and>
      (textDocuments (example_host None None) = [] \<or>
       (uri_toString (example_host None None) (uri \<lparr>uri = ''untitled:SQLQuery_3''\<rparr>) =
          Inr ''untitled:SQLQuery_3'' \<and>
        (\<forall>e \<in> set (textDocuments (example_host None None)).
           documentUri e \<noteq> ''untitled:SQLQuery_3'')))"
    by simp
  from cap throws docs_open
  have hyp2: "''queryStop'' = ''queryStop'' \<and> captureEnabled example_provider \<and>
      Some example_queryInfo \<noteq> None \<and> textDocuments (example_host None None) \<noteq> [] \<and>
      uri_toString (example_host None None) (uri \<lparr>uri = ''a b:c''\<rparr>) =
        Inl (HostError ''[UriError]: Scheme contains illegal characters.'')"
    by simp
  note logged = missing_document_skipped
      [of "''queryStop''" "example_host None None" "\<lparr>uri = ''untitled:SQLQuery_3''\<rparr>"
          "''untitled:SQLQuery_3''" "()" "Some example_queryInfo" example_provider
          "HostError ''[UriError]: Scheme contains illegal characters.''",
       THEN conjunct1, THEN mp, OF hyp1]
  note rejected = missing_document_skipped
      [of "''queryStop''" "example_host None None" "\<lparr>uri = ''a b:c''\<rparr>"
          "''untitled:SQLQuery_3''" "()" "Some example_queryInfo" example_provider
          "HostError ''[UriError]: Scheme contains illegal characters.''",
       THEN conjunct2, THEN mp, OF hyp2]
  from logged rejected cap calls items stored parses throws docs_open other
  show ?thesis by simp
qed

text \<open>
  C6 as stated fails for a query-stop event whose URI the parser refuses while a text
  document is open: the URI \<open>a b:c\<close> matches no open document, yet the handler does not
  return, it is rejected with the error of \<open>vscode.Uri.parse\<close>, and the console gets no
  line.
\<close>

theorem unparseable_uri_counterexample:
  "''a b:c'' \<notin> documentUri ` set (textDocuments (example_host None None)) \<and>
   fst (onQueryEvent (example_host None None) ''queryStop'' \<lparr>uri = ''a b:c''\<rparr> ()
          (Some example_queryInfo) example_provider) =
     Inl (HostError ''[UriError]: Scheme contains illegal characters.'') \<and>
   host_calls
     (snd (onQueryEvent (example_host None None) ''queryStop'' \<lparr>uri = ''a b:c''\<rparr> ()
             (Some example_queryInfo) example_provider)) =
     [SecretsStore ''queryHistory.historyItems'' ''[]'']"
  by (simp add: example_provider_def onQueryEvent_def provider_defs example_defs Let_def)

text \<open>
  C7. When history persistence is on and \<open>secrets.store\<close> rejects with \<open>e\<close>, each of
  \<open>clearAll\<close>, \<open>deleteItem\<close> and the handler of a query event that has added an item is
  rejected with the same \<open>e\<close>. The operation has made exactly one host call, the one
  \<open>secrets.store\<close> of the serialised list: there is no second attempt, and the
  tree-data-change event is not fired.
\<close>

theorem store_failure_propagates:
  assumes "persistHistory s" and "secrets_store_rejects h = Some e"
  shows "fst (clearAll h s) = Inl e \<and>
         host_calls (snd (clearAll h s)) =
           host_calls s @ [SecretsStore STORAGE_KEY (JSON_stringify h [])] \<and>
         fst (deleteItem h item s) = Inl e \<and>
         host_calls (snd (deleteItem h item s)) =
           host_calls s @ [SecretsStore STORAGE_KEY
             (JSON_stringify h (map snd (filter (\<lambda>n. fst n \<noteq> fst item) (queryHistoryItems s))))] \<and>
         (queryHistoryItems (snd (onQueryEvent h type document args queryInfo s)) \<noteq> queryHistoryItems s \<longrightarrow>
            fst (onQueryEvent h type document args queryInfo s) = Inl e \<and>
            host_calls (snd (onQueryEvent h type document args queryInfo s)) =
              host_calls s @ [SecretsStore STORAGE_KEY
                (JSON_stringify h
                   (map snd (queryHistoryItems (snd (onQueryEvent h type document args queryInfo s)))))])"
proof (intro conjI impI)
  show "fst (clearAll h s) = Inl e"
    using assms by (simp add: clearAll_def store_then_fire_rejected)
  show "host_calls (snd (clearAll h s)) =
           host_calls s @ [SecretsStore STORAGE_KEY (JSON_stringify h [])]"
    using assms by (simp add: clearAll_def store_then_fire_rejected)
  show "fst (deleteItem h item s) = Inl e"
    using assms by (simp add: deleteItem_def store_then_fire_rejected)
  show "host_calls (snd (deleteItem h item s)) =
           host_calls s @ [SecretsStore STORAGE_KEY
             (JSON_stringify h (map snd (filter (\<lambda>n. fst n \<noteq> fst item) (queryHistoryItems s))))]"
    using assms by (simp add: deleteItem_def store_then_fire_rejected)
next
  assume ch: "queryHistoryItems (snd (onQueryEvent h type document args queryInfo s)) \<noteq> queryHistoryItems s"
  from onQueryEvent_changed [OF ch]
  obtain x where ev: "onQueryEvent h type document args queryInfo s =
       store_then_fire h (s\<lparr>queryHistoryItems := x # queryHistoryItems s,
                            next_ref := Suc (next_ref s)\<rparr>)"
    by auto
  show "fst (onQueryEvent h type document args queryInfo s) = Inl e"
    using assms ev by (simp add: store_then_fire_rejected)
  show "host_calls (snd (onQueryEvent h type document args queryInfo s)) =
              host_calls s @ [SecretsStore STORAGE_KEY
                (JSON_stringify h
                   (map snd (queryHistoryItems (snd (onQueryEvent h type document args queryInfo s)))))]"
    using assms ev by (simp add: store_then_fire_rejected)
qed

text \<open>
  An instance: the secret storage rejects with \<open>secret storage unavailable\<close> while the
  example provider clears its list, and while it handles the example event.
\<close>

theorem store_failure_propagates_witness:
  "persistHistory example_provider \<and>
   secrets_store_rejects (example_host None (Some (HostError ''secret storage unavailable''))) =
     Some (HostError ''secret storage unavailable'') \<and>
   fst (clearAll (example_host None (Some (HostError ''secret storage unavailable'')))
          example_provider) = Inl (HostError ''secret storage unavailable'') \<and>
   queryHistoryItems
     (snd (onQueryEvent (example_host None (Some (HostError ''secret storage unavailable'')))
             ''queryStop'' example_document () (Some example_queryInfo) example_provider))
     \<noteq> queryHistoryItems example_provider \<and>
   fst (onQueryEvent (example_host None (Some (HostError ''secret storage unavailable'')))
          ''queryStop'' example_document () (Some example_queryInfo) example_provider) =
     Inl (HostError ''secret storage unavailable'') \<and>
   host_calls
     (snd (onQueryEvent (example_host None (Some (HostError ''secret storage unavailable'')))
             ''queryStop'' example_document () (Some example_queryInfo) example_provider)) =
     [SecretsStore ''queryHistory.historyItems'' ''[]'',
      SecretsStore ''queryHistory.historyItems'' ''[SELECT 1]'']"
  using store_failure_propagates [of example_provider
      "example_host None (Some (HostError ''secret storage unavailable''))"
      "HostError ''secret storage unavailable''"
      "(0, \<lparr>queryText = ''SELECT 1'', connectionProfile = None, timestamp = 0, isSuccess = True\<rparr>)"
      "''queryStop''" example_document "()" "Some example_queryInfo"]
  by (simp add: example_provider_def onQueryEvent_def provider_defs example_defs Let_def)

text \<open>
  C9. When capture is disabled, or the event type is not \<open>'queryStop'\<close>, or no query info
  is supplied, the handler resolves and the provider is exactly as before: the same
  in-memory list, the same secret storage, and no host call (so no tree-data-change
  event).
\<close>

theorem ignored_event_changes_nothing:
  assumes "\<not> captureEnabled s \<or> type \<noteq> ''queryStop'' \<or> queryInfo = None"
  shows "onQueryEvent h type document args queryInfo s = (Inr (), s)"
  using assms by (auto simp: onQueryEvent_def split: option.splits)

text \<open>
  An instance of each case: a \<open>queryStart\<close> event and an event without query info on
  the example provider, and the example event on a provider constructed with the
  setting \<open>captureEnabled\<close> set to false.
\<close>

theorem ignored_event_changes_nothing_witness:
  "onQueryEvent (example_host None None) ''queryStart'' example_document ()
     (Some example_queryInfo) example_provider = (Inr (), example_provider) \<and>
   onQueryEvent (example_host None None) ''queryStop'' example_document () None
     example_provider = (Inr (), example_provider) \<and>
   \<not> captureEnabled
       (QueryHistoryProvider_new ((example_host None None)\<lparr>config_captureEnabled := Some False\<rparr>)
          Map.empty) \<and>
   onQueryEvent (example_host None None) ''queryStop'' example_document ()
     (Some example_queryInfo)
     (QueryHistoryProvider_new ((example_host None None)\<lparr>config_captureEnabled := Some False\<rparr>)
        Map.empty) =
     (Inr (),
      QueryHistoryProvider_new ((example_host None None)\<lparr>config_captureEnabled := Some False\<rparr>)
        Map.empty)"
proof -
  have off: "\<not> captureEnabled
       (QueryHistoryProvider_new ((example_host None None)\<lparr>config_captureEnabled := Some False\<rparr>)
          Map.empty)"
    by (simp add: provider_defs example_defs Let_def)
  from off
    ignored_event_changes_nothing [of example_provider "''queryStart''" "Some example_queryInfo"
      "example_host None None" example_document "()"]
    ignored_event_changes_nothing [of example_provider "''queryStop''" None
      "example_host None None" example_document "()"]
    ignored_event_changes_nothing [of
      "QueryHistoryProvider_new ((example_host None None)\<lparr>config_captureEnabled := Some False\<rparr>)
         Map.empty"
      "''queryStop''" "Some example_queryInfo" "example_host None None" example_document "()"]
  show ?thesis by simp
qed

text \<open>
  C10. \<open>getChildren\<close> does not read its argument: for an absent element and for any
  item it returns the whole top-level list.
\<close>

theorem getChildren_ignores_element:
  "getChildren element s = getChildren None s \<and> getChildren element s = queryHistoryItems s"
  by (simp add: getChildren_def)

end
